theory Spec2Isabelle
  imports Complex_Main "HOL-Library.AList" "HOL-Library.Char_ord" "HOL-Library.List_Lexorder"
begin

section \<open>Tables\<close>

text \<open>
  The script \<^verbatim>\<open>pca_clustering_visual_analytics.py\<close> works on one pandas
  \<^verbatim>\<open>DataFrame\<close>. A frame is modelled column-wise, as pandas stores it: an
  association list from column names to typed columns, in column order. The four column
  kinds are the dtypes the two dtype tests of the script tell apart:
  \<^item> \<open>NumCol\<close>: \<^verbatim>\<open>int64\<close>/\<^verbatim>\<open>float64\<close>, floats idealised as reals, \<open>None\<close> for a missing value (NaN);
  \<^item> \<open>BoolCol\<close>: \<^verbatim>\<open>bool\<close>;
  \<^item> \<open>ObjCol\<close>: \<^verbatim>\<open>object\<close> holding text, \<open>None\<close> for a missing value (NaN);
  \<^item> \<open>DatetimeCol\<close>: \<^verbatim>\<open>datetime64[ns]\<close>, \<open>None\<close> for NaT.
  Every Python exception the modelled code can raise is a value of \<open>error\<close>.
\<close>

datatype error = KeyError | IndexError | ValueError | TypeError | UnboundLocalError

datatype column =
    NumCol "real option list"
  | BoolCol "bool list"
  | ObjCol "string option list"
  | DatetimeCol "int option list"

type_synonym dataframe = "(string \<times> column) list"

fun col_len :: "column \<Rightarrow> nat" where
  "col_len (NumCol xs) = length xs"
| "col_len (BoolCol xs) = length xs"
| "col_len (ObjCol xs) = length xs"
| "col_len (DatetimeCol xs) = length xs"

text \<open>\<^verbatim>\<open>len(df)\<close>: every column of a frame has the frame's row count.\<close>

definition nrows :: "dataframe \<Rightarrow> nat" where
  "nrows df = (case df of [] \<Rightarrow> 0 | (_, c) # _ \<Rightarrow> col_len c)"

definition wf_df :: "dataframe \<Rightarrow> bool" where
  "wf_df df = (distinct (map fst df) \<and> list_all (\<lambda>(_, c). col_len c = nrows df) df)"

text \<open>\<^verbatim>\<open>df[name]\<close> raises \<^verbatim>\<open>KeyError\<close> for a name that is not a column.\<close>

definition getcol :: "dataframe \<Rightarrow> string \<Rightarrow> error + column" where
  "getcol df name = (case map_of df name of None \<Rightarrow> Inl KeyError | Some c \<Rightarrow> Inr c)"

text \<open>\<^verbatim>\<open>df[name] = values\<close> replaces the column in place or appends a new one.\<close>

definition setcol :: "dataframe \<Rightarrow> string \<Rightarrow> column \<Rightarrow> dataframe" where
  "setcol df name c = AList.update name c df"

section \<open>Clustering (section 1.2 of the script)\<close>

text \<open>
  \<^verbatim>\<open>labels_.astype(str)\<close>: the decimal numeral of a cluster index.
\<close>

definition digit_char :: "nat \<Rightarrow> char" where
  "digit_char d = ''0123456789'' ! (d mod 10)"

function str_of_nat :: "nat \<Rightarrow> string" where
  "str_of_nat n = (if n < 10 then [digit_char n] else str_of_nat (n div 10) @ [digit_char (n mod 10)])"
  by pat_completeness auto
termination
  by (relation "measure (\<lambda>n. n)") auto

text \<open>
  scikit-learn and numpy's random generator are not part of the repository; the model
  takes them as parameters and fixes nothing about what they compute.
  \<open>random_seed s\<close> is the generator state that \<^verbatim>\<open>np.random.seed(s)\<close> installs.
  \<open>MiniBatchKMeans_fit g n_clusters n_init c1 c2\<close> stands for
  \<^verbatim>\<open>MiniBatchKMeans(n_clusters=n_clusters, n_init=n_init).fit(X)\<close> on the frame
  \<^verbatim>\<open>X\<close> of the two columns: with \<^verbatim>\<open>random_state=None\<close> the estimator draws
  from the global generator, so its result (the exception it raises, its own input checks
  included, or \<^verbatim>\<open>labels_\<close>) is a function of the generator's state and these
  arguments, and comes with the state the generator is left in.
\<close>

record 'g library =
  random_seed :: "nat \<Rightarrow> 'g"
  MiniBatchKMeans_fit :: "'g \<Rightarrow> int \<Rightarrow> nat \<Rightarrow> column \<Rightarrow> column \<Rightarrow> (error + nat list) \<times> 'g"

text \<open>
  \<^verbatim>\<open>clustering(df, n_clusters=2)\<close>, lines 82-99. The generator's state is global:
  the function takes the state it finds and returns the state it leaves, next to the frame
  or the exception. The function itself tests nothing: it raises \<^verbatim>\<open>KeyError\<close> when a
  projection column is missing, whatever \<^verbatim>\<open>fit\<close> raises, and the
  \<^verbatim>\<open>ValueError\<close> of pandas when the labels assigned to \<^verbatim>\<open>Cluster\<close> are not
  one per row (the row count being the length of each column, here of \<^verbatim>\<open>PCA 1\<close>).
\<close>

definition clustering :: "'g library \<Rightarrow> 'g \<Rightarrow> dataframe \<Rightarrow> int \<Rightarrow> (error + dataframe) \<times> 'g" where
  "clustering lib g df n_clusters =
     (case getcol df ''PCA 1'' of Inl e \<Rightarrow> (Inl e, g) | Inr c1 \<Rightarrow>
      (case getcol df ''PCA 2'' of Inl e \<Rightarrow> (Inl e, g) | Inr c2 \<Rightarrow>
       (let g0 = random_seed lib 0 in
        case MiniBatchKMeans_fit lib g0 n_clusters 2 c1 c2 of
          (Inl e, g1) \<Rightarrow> (Inl e, g1)
        | (Inr labels, g1) \<Rightarrow>
            if length labels \<noteq> col_len c1 then (Inl ValueError, g1)
            else (Inr (setcol df ''Cluster'' (ObjCol (map (\<lambda>l. Some (str_of_nat l)) labels))), g1))))"

text \<open>The \<^verbatim>\<open>Cluster\<close> column of a run's result, or the exception the run raised.\<close>

definition cluster_labels :: "(error + dataframe) \<Rightarrow> error + column" where
  "cluster_labels r = (case r of Inl e \<Rightarrow> Inl e | Inr d \<Rightarrow> getcol d ''Cluster'')"

text \<open>A column of labels with every cluster name replaced by its image under \<open>\<pi>\<close>.\<close>

definition relabel :: "(string \<Rightarrow> string) \<Rightarrow> column \<Rightarrow> column" where
  "relabel \<pi> c = (case c of ObjCol xs \<Rightarrow> ObjCol (map (map_option \<pi>) xs) | _ \<Rightarrow> c)"

section \<open>numpy: histograms\<close>

text \<open>
  All arithmetic of this section is exact: a \<^verbatim>\<open>float64\<close> is a real, and a sum,
  quotient or product is the real one. numpy rounds every one of these operations, and
  converts the data to \<^verbatim>\<open>float64\<close> first. The model therefore gives the number
  of edges and of bins, which exceptions are raised on data that are reals, and that the
  second histogram is taken over the edges of the first; it does \<^emph>\<open>not\<close> give the bin
  numpy counts a particular value in: when the range of the data is only a few units in
  the last place wide the rounded edges repeat, and numpy's two ways of binning (by scaled
  offset for \<^verbatim>\<open>bins=50\<close>, by searching the edges for \<^verbatim>\<open>bins=edges\<close>) can
  then file one value in two different bins. Infinite values and ranges beyond the largest
  \<^verbatim>\<open>float64\<close>, on which numpy fails, are not values of the model's columns.
\<close>

text \<open>
  \<^verbatim>\<open>np.linspace(start, stop, num)\<close>: \<open>start + i * step\<close> with
  \<open>step = (stop - start) / (num - 1)\<close>, the last point set to \<open>stop\<close>; in exact
  arithmetic, so the points are distinct whenever \<open>start < stop\<close>, which numpy's rounded
  points need not be.
\<close>

definition linspace :: "real \<Rightarrow> real \<Rightarrow> nat \<Rightarrow> real list" where
  "linspace start stop num =
     map (\<lambda>i. if 1 < num \<and> i = num - 1 then stop
              else start + real i * ((stop - start) / real (num - 1))) [0..<num]"

text \<open>
  The array \<^verbatim>\<open>np.histogram\<close> works on: a numeric series as it is, booleans as
  0 and 1 (numpy converts them to \<^verbatim>\<open>uint8\<close>); text and dates cannot be
  subtracted (\<^verbatim>\<open>TypeError\<close>) unless there are none.
\<close>

fun histogram_input :: "column \<Rightarrow> error + real option list" where
  "histogram_input (NumCol xs) = Inr xs"
| "histogram_input (BoolCol bs) = Inr (map (\<lambda>b. Some (if b then 1 else 0)) bs)"
| "histogram_input (ObjCol xs) = (if xs = [] then Inr [] else Inl TypeError)"
| "histogram_input (DatetimeCol xs) = (if xs = [] then Inr [] else Inl TypeError)"

text \<open>
  \<^verbatim>\<open>_get_outer_edges(a, range=None)\<close>: \<open>(0, 1)\<close> for an empty array, else
  \<open>(a.min(), a.max())\<close>, widened by one half on each side when they coincide.
\<close>

definition get_outer_edges :: "real list \<Rightarrow> real \<times> real" where
  "get_outer_edges a =
     (if a = [] then (0, 1)
      else (let first_edge = Min (set a); last_edge = Max (set a)
            in if first_edge = last_edge then (first_edge - 1 / 2, last_edge + 1 / 2)
               else (first_edge, last_edge)))"

text \<open>\<^verbatim>\<open>f_indices.astype(np.intp)\<close> truncates towards zero.\<close>

definition astype_intp :: "real \<Rightarrow> int" where
  "astype_intp f = (if 0 \<le> f then \<lfloor>f\<rfloor> else \<lceil>f\<rceil>)"

text \<open>
  The bin of one value on numpy's path for equal-width bins: the scaled offset truncated,
  a value on the last edge moved into the last bin, then the two corrections against the
  edges themselves. numpy evaluates the same expression on the value converted to
  \<^verbatim>\<open>float64\<close>, every operation rounded; the index it finds can differ from this one.
\<close>

definition bin_index :: "real \<Rightarrow> real \<Rightarrow> nat \<Rightarrow> real list \<Rightarrow> real \<Rightarrow> int" where
  "bin_index first_edge last_edge n_equal_bins bin_edges x =
     (let f_index = (x - first_edge) / (last_edge - first_edge) * real n_equal_bins;
          i0 = astype_intp f_index;
          i1 = (if i0 = int n_equal_bins then i0 - 1 else i0);
          i2 = (if x < bin_edges ! nat i1 then i1 - 1 else i1);
          i3 = (if bin_edges ! nat (i2 + 1) \<le> x \<and> i2 \<noteq> int n_equal_bins - 1 then i2 + 1 else i2)
      in i3)"

text \<open>
  \<^verbatim>\<open>np.bincount(indices, minlength=m)\<close>: \<^verbatim>\<open>ValueError\<close> on a negative
  index; the result is as long as the largest index needs, and at least \<open>m\<close>.
\<close>

definition bincount :: "int list \<Rightarrow> nat \<Rightarrow> error + int list" where
  "bincount indices minlength =
     (if list_ex (\<lambda>i. i < 0) indices then Inl ValueError
      else Inr (map (\<lambda>b. int (length (filter (\<lambda>i. i = int b) indices)))
                  [0..<(if indices = [] then minlength
                        else max minlength (nat (Max (set indices)) + 1))]))"

text \<open>
  \<^verbatim>\<open>np.histogram(a, bins=n)\<close> for an integer \<open>n\<close>: a missing value makes the
  range \<open>[nan, nan]\<close> and raises \<^verbatim>\<open>ValueError\<close>; otherwise \<open>n + 1\<close> equally
  spaced edges over the data's range and the counts from \<open>bin_index\<close>. (numpy adds the
  counts block by block of 65536 values; the sum is the count over the whole array. An
  infinite value, which would also make the range not finite, is not a real.)
\<close>

definition histogram_bins :: "real option list \<Rightarrow> nat \<Rightarrow> error + int list \<times> real list" where
  "histogram_bins a n_equal_bins =
     (case those a of None \<Rightarrow> Inl ValueError
      | Some vs \<Rightarrow>
         (case get_outer_edges vs of (first_edge, last_edge) \<Rightarrow>
           (let bin_edges = linspace first_edge last_edge (n_equal_bins + 1);
                keep = filter (\<lambda>x. first_edge \<le> x \<and> x \<le> last_edge) vs;
                indices = map (bin_index first_edge last_edge n_equal_bins bin_edges) keep
            in case bincount indices n_equal_bins of Inl e \<Rightarrow> Inl e
               | Inr n \<Rightarrow> if length n \<noteq> n_equal_bins then Inl ValueError
                          else Inr (n, bin_edges))))"

text \<open>\<^verbatim>\<open>np.diff\<close>.\<close>

definition np_diff :: "int list \<Rightarrow> int list" where
  "np_diff xs = map (\<lambda>(a, b). b - a) (zip xs (tl xs))"

text \<open>
  \<^verbatim>\<open>np.histogram(a, bins=edges)\<close> for an array of edges: \<^verbatim>\<open>ValueError\<close>
  unless the edges increase monotonically; then the cumulative counts of the sorted data at
  each edge (strictly below every edge but the last, up to and including the last) and
  their differences. A missing value sorts after every number and is never counted.
\<close>

definition search_sorted_inclusive :: "real list \<Rightarrow> real list \<Rightarrow> int list" where
  "search_sorted_inclusive a v =
     (if v = [] then []
      else map (\<lambda>e. int (length (filter (\<lambda>x. x < e) a))) (butlast v)
           @ [int (length (filter (\<lambda>x. x \<le> last v) a))])"

definition histogram_edges :: "real option list \<Rightarrow> real list \<Rightarrow> error + int list" where
  "histogram_edges a bin_edges =
     (if list_ex (\<lambda>(l, r). r < l) (zip bin_edges (tl bin_edges)) then Inl ValueError
      else Inr (np_diff (search_sorted_inclusive (List.map_filter (\<lambda>x. x) a) bin_edges)))"

text \<open>\<^verbatim>\<open>arr.max()\<close> raises \<^verbatim>\<open>ValueError\<close> on an empty array.\<close>

definition np_max :: "int list \<Rightarrow> error + int" where
  "np_max xs = (case xs of [] \<Rightarrow> Inl ValueError | x # r \<Rightarrow> Inr (fold max r x))"

section \<open>pandas: row selection and value counts\<close>

text \<open>
  \<^verbatim>\<open>df.iloc[indices]\<close> with a list of integers: a negative index counts from the
  end; an index outside \<open>[-n, n)\<close> raises \<^verbatim>\<open>IndexError\<close>.
\<close>

definition norm_index :: "nat \<Rightarrow> int \<Rightarrow> nat option" where
  "norm_index n i =
     (if 0 \<le> i \<and> i < int n then Some (nat i)
      else if - int n \<le> i \<and> i < 0 then Some (nat (int n + i))
      else None)"

fun take_rows :: "column \<Rightarrow> nat list \<Rightarrow> column" where
  "take_rows (NumCol xs) js = NumCol (map (\<lambda>j. xs ! j) js)"
| "take_rows (BoolCol xs) js = BoolCol (map (\<lambda>j. xs ! j) js)"
| "take_rows (ObjCol xs) js = ObjCol (map (\<lambda>j. xs ! j) js)"
| "take_rows (DatetimeCol xs) js = DatetimeCol (map (\<lambda>j. xs ! j) js)"

definition iloc :: "dataframe \<Rightarrow> int list \<Rightarrow> error + dataframe" where
  "iloc df indices =
     (case those (map (norm_index (nrows df)) indices) of
        None \<Rightarrow> Inl IndexError
      | Some js \<Rightarrow> Inr (map (\<lambda>(name, c). (name, take_rows c js)) df))"

text \<open>\<^verbatim>\<open>pd.DataFrame(columns=df.columns)\<close>: no rows, every column of object dtype.\<close>

definition empty_frame :: "dataframe \<Rightarrow> dataframe" where
  "empty_frame df = map (\<lambda>(name, _). (name, ObjCol [])) df"

text \<open>The values of a series as Python objects; \<open>NaV\<close> is a missing value.\<close>

datatype cell = NumV real | BoolV bool | StrV string | DateV int | NaV

fun cells_of :: "column \<Rightarrow> cell list" where
  "cells_of (NumCol xs) = map (\<lambda>x. case x of None \<Rightarrow> NaV | Some v \<Rightarrow> NumV v) xs"
| "cells_of (BoolCol xs) = map BoolV xs"
| "cells_of (ObjCol xs) = map (\<lambda>x. case x of None \<Rightarrow> NaV | Some v \<Rightarrow> StrV v) xs"
| "cells_of (DatetimeCol xs) = map (\<lambda>x. case x of None \<Rightarrow> NaV | Some v \<Rightarrow> DateV v) xs"

text \<open>
  \<^verbatim>\<open>value_counts()\<close> after the missing values are dropped: each distinct value with
  its number of occurrences, the most frequent first. How pandas orders equally frequent
  values is a detail of its sort; the model lists them as first seen, and nothing below
  depends on their order.
\<close>

definition count_values :: "'a list \<Rightarrow> ('a \<times> nat) list" where
  "count_values xs =
     sort_key (\<lambda>(v, n). - int n)
       (map (\<lambda>v. (v, length (filter (\<lambda>x. x = v) xs))) (rev (remdups (rev xs))))"

text \<open>\<^verbatim>\<open>series.value_counts()\<close>.\<close>

definition series_value_counts :: "column \<Rightarrow> (cell \<times> nat) list" where
  "series_value_counts c = count_values (filter (\<lambda>v. v \<noteq> NaV) (cells_of c))"

text \<open>
  \<^verbatim>\<open>frame.value_counts()\<close> counts distinct \<^emph>\<open>rows\<close>: every row without a missing
  value is one tuple over all the columns, and the result is indexed by these tuples (a
  \<^verbatim>\<open>MultiIndex\<close> with one level per column). Only membership in this index and the
  entries under a key are used below, not the order of the entries.
\<close>

definition frame_rows :: "dataframe \<Rightarrow> cell list list" where
  "frame_rows df = transpose (map (\<lambda>(_, c). cells_of c) df)"

definition frame_value_counts :: "dataframe \<Rightarrow> (cell list \<times> nat) list" where
  "frame_value_counts df = count_values (filter (\<lambda>r. NaV \<notin> set r) (frame_rows df))"

text \<open>
  \<^verbatim>\<open>key in counts.index\<close> for a key that is not a tuple asks whether the key is a
  value of the \<^emph>\<open>first\<close> level of the index, that is a value of the frame's first
  column (a label matches a value of the same kind only).
\<close>

definition in_index :: "cell \<Rightarrow> (cell list \<times> nat) list \<Rightarrow> bool" where
  "in_index key counts = list_ex (\<lambda>(r, _). case r of [] \<Rightarrow> False | x # _ \<Rightarrow> x = key) counts"

text \<open>
  \<^verbatim>\<open>counts[key]\<close> for such a key selects on the first level too: with a single level
  and a single match it is the count itself, otherwise a sub-series over the remaining
  levels.
\<close>

datatype count_entry = Scalar int | SubSeries "(cell list \<times> nat) list"

definition index_lookup :: "(cell list \<times> nat) list \<Rightarrow> cell \<Rightarrow> count_entry" where
  "index_lookup counts key =
     (let hits = filter (\<lambda>(r, _). case r of [] \<Rightarrow> False | x # _ \<Rightarrow> x = key) counts
      in case hits of
           [(r, n)] \<Rightarrow> if length r = 1 then Scalar (int n) else SubSeries [(tl r, n)]
         | _ \<Rightarrow> SubSeries (map (\<lambda>(r, n). (tl r, n)) hits))"

text \<open>
  \<^verbatim>\<open>np.concatenate((count, count_s))\<close>: the list \<open>count_s\<close> becomes an array of
  the same kind only when each of its entries is a number; an entry that is a series makes
  the conversion (or the concatenation of arrays of different dimensions) a
  \<^verbatim>\<open>ValueError\<close>.
\<close>

fun scalars :: "count_entry list \<Rightarrow> error + int list" where
  "scalars [] = Inr []"
| "scalars (Scalar n # es) = (case scalars es of Inl e \<Rightarrow> Inl e | Inr ns \<Rightarrow> Inr (n # ns))"
| "scalars (SubSeries _ # es) = Inl ValueError"


section \<open>The views (section 2 of the script)\<close>

text \<open>
  \<^verbatim>\<open>is_numeric_dtype\<close> holds of integer, float and boolean dtypes,
  \<^verbatim>\<open>is_object_dtype\<close> of the object dtype only.
\<close>

fun is_numeric_dtype :: "column \<Rightarrow> bool" where
  "is_numeric_dtype (NumCol _) = True"
| "is_numeric_dtype (BoolCol _) = True"
| "is_numeric_dtype (ObjCol _) = False"
| "is_numeric_dtype (DatetimeCol _) = False"

fun is_object_dtype :: "column \<Rightarrow> bool" where
  "is_object_dtype (ObjCol _) = True"
| "is_object_dtype (NumCol _) = False"
| "is_object_dtype (BoolCol _) = False"
| "is_object_dtype (DatetimeCol _) = False"

text \<open>
  Colours. \<^verbatim>\<open>bokeh.palettes.Turbo256\<close> is a tuple of 256 colour strings; its table
  is not reproduced: \<open>Turbo256_at i\<close> stands for \<^verbatim>\<open>Turbo256[i]\<close>. A palette
  argument is either a sequence of colours or, when one entry of the tuple is passed, a
  single colour string.
\<close>

datatype color = Hex string | Turbo256_at nat

datatype palette = Colors "color list" | OneColor color

definition Turbo256 :: "color list" where
  "Turbo256 = map Turbo256_at [0..<256]"

datatype mapper =
    FactorCmap string "color list" "string list"
  | LogCmap string "color list" "real option" "real option"
  | LinearCmap string "color list" "real option" "real option"

text \<open>
  \<^verbatim>\<open>factor_cmap(field, palette, factors)\<close> builds a
  \<^verbatim>\<open>CategoricalColorMapper\<close>, whose \<^verbatim>\<open>palette\<close> property accepts a sequence of
  colours (or the name of a palette) and rejects any other string with
  \<^verbatim>\<open>ValueError\<close>.
\<close>

definition factor_cmap :: "string \<Rightarrow> palette \<Rightarrow> string list \<Rightarrow> error + mapper" where
  "factor_cmap field_name pal factors =
     (case pal of Colors cs \<Rightarrow> Inr (FactorCmap field_name cs factors)
      | OneColor _ \<Rightarrow> Inl ValueError)"

text \<open>The colours a palette yields when iterated as a sequence of colours.\<close>

fun palette_colors :: "palette \<Rightarrow> color list" where
  "palette_colors (Colors cs) = cs"
| "palette_colors (OneColor _) = []"

text \<open>\<^verbatim>\<open>series.astype(str)\<close> on an object column: a missing value reads \<^verbatim>\<open>nan\<close>.\<close>

fun astype_str :: "column \<Rightarrow> string list" where
  "astype_str (ObjCol xs) = map (\<lambda>x. case x of None \<Rightarrow> ''nan'' | Some v \<Rightarrow> v) xs"
| "astype_str _ = []"

text \<open>\<^verbatim>\<open>np.unique\<close>: the distinct values, sorted.\<close>

definition np_unique :: "string list \<Rightarrow> string list" where
  "np_unique xs = sort (remdups xs)"

text \<open>
  Python's \<^verbatim>\<open>min(series)\<close> and \<^verbatim>\<open>max(series)\<close> walk the values and keep
  the current one unless the next compares smaller (larger); every comparison with a
  missing value is false; an empty series raises \<^verbatim>\<open>ValueError\<close>.
\<close>

fun series_floats :: "column \<Rightarrow> real option list" where
  "series_floats (NumCol xs) = xs"
| "series_floats (BoolCol bs) = map (\<lambda>b. Some (if b then 1 else 0)) bs"
| "series_floats _ = []"

definition py_lt :: "real option \<Rightarrow> real option \<Rightarrow> bool" where
  "py_lt a b = (case (a, b) of (Some x, Some y) \<Rightarrow> x < y | _ \<Rightarrow> False)"

definition py_min :: "real option list \<Rightarrow> error + real option" where
  "py_min xs = (case xs of [] \<Rightarrow> Inl ValueError
                | x # r \<Rightarrow> Inr (fold (\<lambda>y m. if py_lt y m then y else m) r x))"

definition py_max :: "real option list \<Rightarrow> error + real option" where
  "py_max xs = (case xs of [] \<Rightarrow> Inl ValueError
                | x # r \<Rightarrow> Inr (fold (\<lambda>y m. if py_lt m y then y else m) r x))"

text \<open>
  \<^verbatim>\<open>create_cmap(df, col)\<close>, lines 104-141: the colour mapper and the dictionary of
  category colours (\<^verbatim>\<open>None\<close> for a numeric feature). A column that is neither of
  object nor of numeric dtype binds neither name, and the \<^verbatim>\<open>return\<close> raises
  \<^verbatim>\<open>UnboundLocalError\<close>.
\<close>

definition create_cmap :: "dataframe \<Rightarrow> string \<Rightarrow> error + mapper \<times> (string \<times> color) list option" where
  "create_cmap df col =
     (case getcol df col of Inl e \<Rightarrow> Inl e | Inr c \<Rightarrow>
        if is_object_dtype c then
          (let l = np_unique (astype_str c) in
           case (if length l = 2 then Inr (Colors [Hex ''#000000'', Hex ''#FFFFFF''])
                 else if length l < 256 then Inr (OneColor (Turbo256 ! length l))
                 else Inl IndexError) of
             Inl e \<Rightarrow> Inl e
           | Inr pal \<Rightarrow>
              (case factor_cmap col pal l of Inl e \<Rightarrow> Inl e
               | Inr m \<Rightarrow> Inr (m, Some (zip l (palette_colors pal)))))
        else if is_numeric_dtype c then
          (case py_min (series_floats c) of Inl e \<Rightarrow> Inl e | Inr low \<Rightarrow>
             if (case low of None \<Rightarrow> False | Some v \<Rightarrow> 0 \<le> v) then
               (case py_max (series_floats c) of Inl e \<Rightarrow> Inl e
                | Inr high \<Rightarrow> Inr (LogCmap col Turbo256 low high, None))
             else
               (case py_max (series_floats c) of Inl e \<Rightarrow> Inl e
                | Inr high \<Rightarrow> Inr (LinearCmap col Turbo256 low high, None)))
        else Inl UnboundLocalError)"

text \<open>
  \<^verbatim>\<open>plot_pca(source, df, ft_selected)\<close>, lines 146-196. Of the figure the model keeps
  the title, the fill colour mapper, the field that feeds the legend, the colour bar of a
  numeric feature and whether the legend was moved to the left (a categorical feature).
\<close>

record scatter_plot =
  scatter_title :: string
  fill_color :: mapper
  legend_field :: string
  color_bar :: "(real option \<times> real option) option"
  legend_left :: bool

definition plot_pca :: "dataframe \<Rightarrow> dataframe \<Rightarrow> string \<Rightarrow> error + scatter_plot" where
  "plot_pca source df ft_selected =
     (case create_cmap df ft_selected of Inl e \<Rightarrow> Inl e | Inr (m, _) \<Rightarrow>
      (let p = \<lparr>scatter_title = ''PCA with Color Map on '' @ ft_selected, fill_color = m,
                legend_field = ''label'', color_bar = None, legend_left = False\<rparr>
       in case getcol df ft_selected of Inl e \<Rightarrow> Inl e | Inr c \<Rightarrow>
            if is_numeric_dtype c then
              (case py_min (series_floats c) of Inl e \<Rightarrow> Inl e | Inr low \<Rightarrow>
               (case py_max (series_floats c) of Inl e \<Rightarrow> Inl e | Inr high \<Rightarrow>
                  Inr (p\<lparr>color_bar := Some (low, high)\<rparr>)))
            else if is_object_dtype c then Inr (p\<lparr>legend_left := True\<rparr>)
            else Inr p))"

text \<open>
  \<^verbatim>\<open>draw_hist(df, col, points_selected)\<close>, lines 200-275: the data source of the two
  sets of bars, the upper end of the y range and the labels.
\<close>

record hist_plot =
  left :: "real list"
  right :: "real list"
  all_counts :: "int list"
  selected_counts :: "int list"
  hist_y_end :: real
  hist_title :: string

definition draw_hist :: "dataframe \<Rightarrow> string \<Rightarrow> int list \<Rightarrow> error + hist_plot" where
  "draw_hist df col points_selected =
     (case (if points_selected = [] then Inr (empty_frame df) else iloc df points_selected) of
        Inl e \<Rightarrow> Inl e
      | Inr s \<Rightarrow>
     (case getcol df col of Inl e \<Rightarrow> Inl e | Inr c \<Rightarrow>
     (case histogram_input c of Inl e \<Rightarrow> Inl e | Inr a \<Rightarrow>
     (case histogram_bins a 50 of Inl e \<Rightarrow> Inl e | Inr (top_all, edges) \<Rightarrow>
     (case getcol s col of Inl e \<Rightarrow> Inl e | Inr c_s \<Rightarrow>
     (case histogram_input c_s of Inl e \<Rightarrow> Inl e | Inr a_s \<Rightarrow>
     (case histogram_edges a_s edges of Inl e \<Rightarrow> Inl e | Inr top_s \<Rightarrow>
     (case np_max top_all of Inl e \<Rightarrow> Inl e | Inr m \<Rightarrow>
        Inr \<lparr>left = butlast edges, right = tl edges, all_counts = top_all,
             selected_counts = top_s, hist_y_end = 11 / 10 * real_of_int m,
             hist_title = ''Histogram of '' @ col\<rparr>))))))))"

text \<open>
  \<^verbatim>\<open>draw_bar_chart(df, col, points_selected)\<close>, lines 280-380. The counts of the
  selection are taken from \<^verbatim>\<open>s.value_counts()\<close>, the value counts of the selected
  \<^emph>\<open>frame\<close>, and looked up by category.
\<close>

record bar_chart =
  bar_x :: "cell list"
  bar_counts :: "int list"
  bar_color :: "color list"
  bar_label :: "string list"
  x_range :: "cell list"
  bar_y_end :: real
  bar_title :: string

text \<open>\<^verbatim>\<open>cat_palette[c]\<close>: subscripting \<^verbatim>\<open>None\<close> is a \<^verbatim>\<open>TypeError\<close>, a missing key a \<^verbatim>\<open>KeyError\<close>.\<close>

definition palette_lookup :: "(string \<times> color) list option \<Rightarrow> cell \<Rightarrow> error + color" where
  "palette_lookup cat_palette c =
     (case cat_palette of None \<Rightarrow> Inl TypeError
      | Some d \<Rightarrow> (case c of StrV k \<Rightarrow> (case map_of (rev d) k of None \<Rightarrow> Inl KeyError | Some v \<Rightarrow> Inr v)
                   | _ \<Rightarrow> Inl KeyError))"

fun map_result :: "('a \<Rightarrow> error + 'b) \<Rightarrow> 'a list \<Rightarrow> error + 'b list" where
  "map_result f [] = Inr []"
| "map_result f (x # xs) =
     (case f x of Inl e \<Rightarrow> Inl e
      | Inr y \<Rightarrow> (case map_result f xs of Inl e \<Rightarrow> Inl e | Inr ys \<Rightarrow> Inr (y # ys)))"

definition draw_bar_chart :: "dataframe \<Rightarrow> string \<Rightarrow> int list \<Rightarrow> error + bar_chart" where
  "draw_bar_chart df col points_selected =
     (case (if 0 < length points_selected then iloc df points_selected else Inr (empty_frame df)) of
        Inl e \<Rightarrow> Inl e
      | Inr s \<Rightarrow>
     (case getcol df col of Inl e \<Rightarrow> Inl e | Inr c \<Rightarrow>
     (let dis = series_value_counts c;
          dis_s = frame_value_counts s;
          cat = map fst dis;
          count = map (\<lambda>(_, n). int n) dis;
          count_s = map (\<lambda>c. if in_index c dis_s then index_lookup dis_s c else Scalar 0) cat
      in
     (case create_cmap df col of Inl e \<Rightarrow> Inl e | Inr (_, cat_palette) \<Rightarrow>
     (case map_result (palette_lookup cat_palette) cat of Inl e \<Rightarrow> Inl e | Inr cat_color \<Rightarrow>
     (case scalars count_s of Inl e \<Rightarrow> Inl e | Inr count_s' \<Rightarrow>
     (case np_max count of Inl e \<Rightarrow> Inl e | Inr m \<Rightarrow>
        Inr \<lparr>bar_x = cat @ cat, bar_counts = count @ count_s',
             bar_color = cat_color @ cat_color,
             bar_label = replicate (length cat) ''all'' @ replicate (length cat) ''selected'',
             x_range = cat, bar_y_end = real_of_int m * (11 / 10),
             bar_title = ''Distribution of '' @ col\<rparr>)))))))"

text \<open>
  \<^verbatim>\<open>draw_subplot(df, ft_selected, points_selected)\<close>, lines 386-393: an
  \<^verbatim>\<open>if\<close>/\<^verbatim>\<open>elif\<close> without \<^verbatim>\<open>else\<close>; when neither test holds
  \<^verbatim>\<open>sub_p\<close> is unbound at the \<^verbatim>\<open>return\<close>.
\<close>

datatype subplot = Histogram hist_plot | BarChart bar_chart

definition draw_subplot :: "dataframe \<Rightarrow> string \<Rightarrow> int list \<Rightarrow> error + subplot" where
  "draw_subplot df ft_selected points_selected =
     (case getcol df ft_selected of Inl e \<Rightarrow> Inl e | Inr c \<Rightarrow>
        if is_numeric_dtype c then
          (case draw_hist df ft_selected points_selected of Inl e \<Rightarrow> Inl e
           | Inr ph \<Rightarrow> Inr (Histogram ph))
        else if is_object_dtype c then
          (case draw_bar_chart df ft_selected points_selected of Inl e \<Rightarrow> Inl e
           | Inr pb \<Rightarrow> Inr (BarChart pb))
        else Inl UnboundLocalError)"

section \<open>The session (sections "Plotting" and 3 of the script)\<close>

text \<open>
  The module-level state the callbacks read and write: the frame \<^verbatim>\<open>df\<close>, the data
  of \<^verbatim>\<open>p_pca_source\<close> (a copy of the frame's columns made when the source is
  created), the three globals \<^verbatim>\<open>pca_ft_selected\<close>, \<^verbatim>\<open>sub_ft_selected\<close> and
  \<^verbatim>\<open>points_selected\<close>, and the two plots held by the layout.
\<close>

record session =
  df :: dataframe
  p_pca_source :: dataframe
  pca_ft_selected :: string
  sub_ft_selected :: string
  points_selected :: "int list"
  layout_pca :: scatter_plot
  layout_sub :: subplot

text \<open>
  Lines 405-429, run once on the frame returned by \<^verbatim>\<open>clustering\<close>:
  \<^verbatim>\<open>df['label'] = pca_ft_selected\<close> assigns the \<^emph>\<open>string\<close>
  \<^verbatim>\<open>'Market Cap'\<close>, which pandas broadcasts to every row.
\<close>

definition startup :: "dataframe \<Rightarrow> error + session" where
  "startup df0 =
     (let pca_ft = ''Market Cap'';
          sub_ft = ''Mean Recommendation'';
          points = [];
          df1 = setcol df0 ''label'' (ObjCol (replicate (nrows df0) (Some pca_ft)));
          source = df1
      in case plot_pca source df1 pca_ft of Inl e \<Rightarrow> Inl e | Inr p_pca \<Rightarrow>
         (case draw_subplot df1 sub_ft points of Inl e \<Rightarrow> Inl e | Inr p_sub \<Rightarrow>
            Inr \<lparr>df = df1, p_pca_source = source, pca_ft_selected = pca_ft,
                 sub_ft_selected = sub_ft, points_selected = points,
                 layout_pca = p_pca, layout_sub = p_sub\<rparr>))"

text \<open>
  A callback runs statement by statement on the global state; an exception stops it and
  leaves the effects of the statements already run. The model returns the state the
  callback leaves and the exception, if any.

  \<^verbatim>\<open>update_pca_col(attrname, old, new)\<close>, lines 475-481.
\<close>

definition update_pca_col :: "session \<Rightarrow> string \<Rightarrow> session \<times> error option" where
  "update_pca_col st new =
     (let st1 = st\<lparr>pca_ft_selected := new\<rparr>
      in case getcol (df st1) new of Inl e \<Rightarrow> (st1, Some e) | Inr c \<Rightarrow>
         (let st2 = st1\<lparr>p_pca_source := setcol (p_pca_source st1) ''label'' c\<rparr>
          in case plot_pca (p_pca_source st2) (df st2) (pca_ft_selected st2) of
               Inl e \<Rightarrow> (st2, Some e)
             | Inr p_pca \<Rightarrow> (st2\<lparr>layout_pca := p_pca\<rparr>, None)))"

text \<open>\<^verbatim>\<open>update_sub_col(attrname, old, new)\<close>, lines 488-491.\<close>

definition update_sub_col :: "session \<Rightarrow> string \<Rightarrow> session \<times> error option" where
  "update_sub_col st new =
     (let st1 = st\<lparr>sub_ft_selected := new\<rparr>
      in case draw_subplot (df st1) (sub_ft_selected st1) (points_selected st1) of
           Inl e \<Rightarrow> (st1, Some e)
         | Inr p_sub \<Rightarrow> (st1\<lparr>layout_sub := p_sub\<rparr>, None))"


section \<open>Auxiliary notions for the histogram proofs\<close>

text \<open>
  The bin of a value in the exact arithmetic of the model, and the bin of a value as the
  edges delimit it: every bin is half-open, but the last one also holds its right edge.
\<close>

definition bin_of :: "real \<Rightarrow> real \<Rightarrow> nat \<Rightarrow> real \<Rightarrow> int" where
  "bin_of lo hi n x = min \<lfloor>(x - lo) / (hi - lo) * real n\<rfloor> (int n - 1)"

definition in_bin :: "real list \<Rightarrow> nat \<Rightarrow> real \<Rightarrow> bool" where
  "in_bin edges i x =
     (edges ! i \<le> x \<and> (if Suc (Suc i) = length edges then x \<le> edges ! Suc i else x < edges ! Suc i))"

text \<open>
  What the two histogram calls of \<open>draw_hist\<close> compute, written as counts: the edges and
  the counts over all values for \<open>n\<close> bins, and the counts of a second list of values
  between given edges.
\<close>

definition hist_edges :: "real list \<Rightarrow> nat \<Rightarrow> real list" where
  "hist_edges vs n = (case get_outer_edges vs of (lo, hi) \<Rightarrow> linspace lo hi (Suc n))"

definition all_bins :: "real list \<Rightarrow> nat \<Rightarrow> int list" where
  "all_bins vs n =
     (case get_outer_edges vs of (lo, hi) \<Rightarrow>
        map (\<lambda>b. int (length (filter (\<lambda>x. bin_of lo hi n x = int b) vs))) [0..<n])"

definition selected_bins :: "real list \<Rightarrow> real list \<Rightarrow> int list" where
  "selected_bins edges vs = map (\<lambda>b. int (length (filter (in_bin edges b) vs))) [0..<length edges - 1]"

section \<open>Example inputs\<close>

text \<open>
  A stand-in for the two libraries whose labels depend on the generator's state (row
  \<open>j\<close> gets label \<open>(g + j) mod n_clusters\<close>, and the generator advances by one
  step), and a projection of two rows.
\<close>

definition demo_library :: "nat library" where
  "demo_library =
     \<lparr>random_seed = (\<lambda>s. s),
      MiniBatchKMeans_fit =
        (\<lambda>g k i c1 c2. (Inr (map (\<lambda>j. (g + j) mod nat k) [0..<col_len c1]), Suc g))\<rparr>"

definition demo_projection :: dataframe where
  "demo_projection = [(''PCA 1'', NumCol [Some 0, Some 10]), (''PCA 2'', NumCol [Some 1, Some 11])]"

text \<open>A table of three companies, and one whose numeric feature has a missing value.\<close>

definition demo_table :: dataframe where
  "demo_table =
     [(''Symbol'', ObjCol [Some ''AAA'', Some ''BBB'', Some ''CCC'']),
      (''Market Cap'', NumCol [Some 10, Some 20, Some 35]),
      (''Mean Recommendation'', NumCol [Some 1, Some 2, Some 4]),
      (''PCA 1'', NumCol [Some 0, Some 10, Some 1]),
      (''PCA 2'', NumCol [Some 1, Some 11, Some 0]),
      (''Cluster'', ObjCol [Some ''0'', Some ''1'', Some ''0''])]"

definition gappy_table :: dataframe where
  "gappy_table =
     [(''Symbol'', ObjCol [Some ''AAA'', Some ''BBB'']),
      (''Mean Recommendation'', NumCol [Some 1, None])]"

text \<open>
  A table with a boolean and a date column, and the session the script's start-up code
  builds from \<open>demo_table\<close> (its subplot written with the counts of the histogram section).
\<close>

definition typed_table :: dataframe where
  "typed_table =
     [(''Symbol'', ObjCol [Some ''AAA'', Some ''BBB'']),
      (''Profitable'', BoolCol [True, False]),
      (''Founded'', DatetimeCol [Some 0, Some 86400])]"

definition demo_session :: session where
  "demo_session =
     \<lparr>df = setcol demo_table ''label'' (ObjCol (replicate 3 (Some ''Market Cap''))),
      p_pca_source = setcol demo_table ''label'' (ObjCol (replicate 3 (Some ''Market Cap''))),
      pca_ft_selected = ''Market Cap'',
      sub_ft_selected = ''Mean Recommendation'',
      points_selected = [],
      layout_pca =
        \<lparr>scatter_title = ''PCA with Color Map on Market Cap'',
         fill_color = LogCmap ''Market Cap'' Turbo256 (Some 10) (Some 35),
         legend_field = ''label'', color_bar = Some (Some 10, Some 35), legend_left = False\<rparr>,
      layout_sub =
        Histogram
          \<lparr>left = butlast (hist_edges [1, 2, 4] 50), right = tl (hist_edges [1, 2, 4] 50),
           all_counts = all_bins [1, 2, 4] 50, selected_counts = replicate 50 0,
           hist_y_end = 11 / 10 * real_of_int (Max (set (all_bins [1, 2, 4] 50))),
           hist_title = ''Histogram of Mean Recommendation''\<rparr>\<rparr>"

text \<open>A table whose rows fall into three clusters.\<close>

definition three_cluster_table :: dataframe where
  "three_cluster_table =
     [(''Symbol'', ObjCol [Some ''AAA'', Some ''BBB'', Some ''CCC'']),
      (''Cluster'', ObjCol [Some ''0'', Some ''1'', Some ''2''])]"

section \<open>Columns of a frame\<close>

lemma getcol_setcol_same: "getcol (setcol d k c) k = Inr c"
  by (simp add: getcol_def setcol_def update_conv')

section \<open>The cluster assigner\<close>

lemma cluster_labels_clustering:
  "cluster_labels (fst (clustering lib g d n)) =
     (case getcol d ''PCA 1'' of Inl e \<Rightarrow> Inl e | Inr c1 \<Rightarrow>
      (case getcol d ''PCA 2'' of Inl e \<Rightarrow> Inl e | Inr c2 \<Rightarrow>
       (case fst (MiniBatchKMeans_fit lib (random_seed lib 0) n 2 c1 c2) of
          Inl e \<Rightarrow> Inl e
        | Inr labels \<Rightarrow>
            if length labels \<noteq> col_len c1 then Inl ValueError
            else Inr (ObjCol (map (\<lambda>l. Some (str_of_nat l)) labels)))))"
  by (auto simp: clustering_def cluster_labels_def getcol_setcol_same Let_def
           split: sum.splits prod.splits)

text \<open>
  C3. Two runs of \<open>clustering\<close> on frames with the same projection columns and the same
  \<open>n_clusters\<close> write the same \<^verbatim>\<open>Cluster\<close> column (or raise the same exception),
  whatever state the global random generator was in before either run and whatever else
  the frames hold: the function reseeds the generator with the constant 0 before it fits.
  Equal label columns are in particular equal up to a bijective renaming of the clusters.
\<close>

theorem clustering_deterministic:
  assumes "getcol d1 ''PCA 1'' = getcol d2 ''PCA 1''"
    and "getcol d1 ''PCA 2'' = getcol d2 ''PCA 2''"
  shows "cluster_labels (fst (clustering lib g1 d1 n)) = cluster_labels (fst (clustering lib g2 d2 n))
       \<and> (\<exists>\<pi>. bij \<pi> \<and> map_sum (\<lambda>e. e) (relabel \<pi>) (cluster_labels (fst (clustering lib g1 d1 n)))
                         = cluster_labels (fst (clustering lib g2 d2 n)))"
proof -
  have eq: "cluster_labels (fst (clustering lib g1 d1 n)) = cluster_labels (fst (clustering lib g2 d2 n))"
    by (simp add: cluster_labels_clustering assms split: sum.splits)
  have "map (map_option (\<lambda>s::string. s)) xs = xs" for xs
    by (induction xs) (simp_all add: option.map_ident)
  then have "map_sum (\<lambda>e. e) (relabel (\<lambda>s. s)) r = r" for r
    by (cases r) (simp_all add: relabel_def split: column.splits)
  moreover have "bij (\<lambda>s::string. s)" by (simp add: bij_def inj_def surj_def)
  ultimately show ?thesis using eq by metis
qed

theorem clustering_deterministic_witness:
  "getcol demo_projection ''PCA 1'' = getcol ((''Symbol'', ObjCol [Some ''A'', Some ''B'']) # demo_projection) ''PCA 1''
   \<and> getcol demo_projection ''PCA 2'' = getcol ((''Symbol'', ObjCol [Some ''A'', Some ''B'']) # demo_projection) ''PCA 2''
   \<and> cluster_labels (fst (clustering demo_library 3 demo_projection 2))
     = cluster_labels (fst (clustering demo_library 7 ((''Symbol'', ObjCol [Some ''A'', Some ''B'']) # demo_projection) 2))
   \<and> (\<exists>\<pi>. bij \<pi> \<and> map_sum (\<lambda>e. e) (relabel \<pi>) (cluster_labels (fst (clustering demo_library 3 demo_projection 2)))
         = cluster_labels (fst (clustering demo_library 7 ((''Symbol'', ObjCol [Some ''A'', Some ''B'']) # demo_projection) 2)))"
proof -
  have h1: "getcol demo_projection ''PCA 1'' = getcol ((''Symbol'', ObjCol [Some ''A'', Some ''B'']) # demo_projection) ''PCA 1''"
    and h2: "getcol demo_projection ''PCA 2'' = getcol ((''Symbol'', ObjCol [Some ''A'', Some ''B'']) # demo_projection) ''PCA 2''"
    by (simp_all add: getcol_def demo_projection_def)
  from clustering_deterministic [OF h1 h2, of demo_library 3 2 7] h1 h2
  show ?thesis by blast
qed

section \<open>Histograms\<close>

lemma length_linspace: "length (linspace a b m) = m"
  by (simp add: linspace_def)

lemma linspace_nth:
  assumes "0 < n" and "i \<le> n"
  shows "linspace lo hi (Suc n) ! i = lo + real i * ((hi - lo) / real n)"
proof (cases "i = n")
  case True
  have "lo + real n * ((hi - lo) / real n) = hi"
    using assms(1) by simp
  with True assms show ?thesis
    by (simp add: linspace_def nth_map del: upt_Suc)
next
  case False
  with assms show ?thesis
    by (simp add: linspace_def nth_map del: upt_Suc)
qed

lemma edge_le_iff:
  assumes "lo < hi" and "0 < n"
  shows "(lo + real i * ((hi - lo) / real n) \<le> x) = (real i \<le> (x - lo) / (hi - lo) * real n)"
proof -
  have w: "0 < hi - lo" and n: "0 < real n" using assms by simp_all
  have "(lo + real i * ((hi - lo) / real n) \<le> x) = (real i * (hi - lo) / real n \<le> x - lo)"
    by (simp add: algebra_simps)
  also have "\<dots> = (real i * (hi - lo) \<le> (x - lo) * real n)"
    using n by (simp add: pos_divide_le_eq)
  also have "\<dots> = (real i \<le> (x - lo) * real n / (hi - lo))"
    using w by (simp add: pos_le_divide_eq)
  finally show ?thesis by simp
qed

lemma edge_gt_iff:
  assumes "lo < hi" and "0 < n"
  shows "(x < lo + real i * ((hi - lo) / real n)) = ((x - lo) / (hi - lo) * real n < real i)"
  using edge_le_iff [OF assms, of i x] by (simp add: not_le [symmetric])

lemma scaled_range:
  assumes "lo < hi" and "lo \<le> x" and "x \<le> hi"
  shows "0 \<le> (x - lo) / (hi - lo) * real n" and "(x - lo) / (hi - lo) * real n \<le> real n"
proof -
  have w: "0 < hi - lo" using assms by simp
  have "0 \<le> (x - lo) / (hi - lo)" using assms w by simp
  then show "0 \<le> (x - lo) / (hi - lo) * real n" by (rule mult_nonneg_nonneg) simp
  have "(x - lo) / (hi - lo) \<le> 1" using assms w by (simp add: pos_divide_le_eq)
  then have "(x - lo) / (hi - lo) * real n \<le> 1 * real n"
    by (intro mult_right_mono) simp_all
  then show "(x - lo) / (hi - lo) * real n \<le> real n" by simp
qed

lemma bin_index_exact:
  assumes "lo < hi" and "0 < n" and "lo \<le> x" and "x \<le> hi"
  shows "bin_index lo hi n (linspace lo hi (Suc n)) x = bin_of lo hi n x"
proof -
  define t where "t = (x - lo) / (hi - lo) * real n"
  define i1 where "i1 = min \<lfloor>t\<rfloor> (int n - 1)"
  have t0: "0 \<le> t" and tn: "t \<le> real n"
    using scaled_range [OF assms(1,3,4), of n] by (simp_all add: t_def)
  have f0: "0 \<le> \<lfloor>t\<rfloor>" using t0 by simp
  have fn: "\<lfloor>t\<rfloor> \<le> int n" using tn by (simp add: floor_le_iff)
  have i1_range: "0 \<le> i1" "i1 \<le> int n - 1" using f0 assms(2) by (simp_all add: i1_def)
  have i1_alt: "(if \<lfloor>t\<rfloor> = int n then \<lfloor>t\<rfloor> - 1 else \<lfloor>t\<rfloor>) = i1"
    using fn by (simp add: i1_def min_def)
  have e1: "linspace lo hi (Suc n) ! nat i1 = lo + real (nat i1) * ((hi - lo) / real n)"
    using i1_range assms(2) by (intro linspace_nth) simp_all
  have e2: "linspace lo hi (Suc n) ! nat (i1 + 1) = lo + real (nat (i1 + 1)) * ((hi - lo) / real n)"
    using i1_range assms(2) by (intro linspace_nth) simp_all
  have r1: "real (nat i1) = real_of_int i1" and r2: "real (nat (i1 + 1)) = real_of_int i1 + 1"
    using i1_range by simp_all
  have "i1 \<le> \<lfloor>t\<rfloor>" by (simp add: i1_def)
  then have i1_le: "real_of_int i1 \<le> t" by linarith
  have "(x < linspace lo hi (Suc n) ! nat i1) = (t < real (nat i1))"
    unfolding e1 t_def by (rule edge_gt_iff [OF assms(1,2)])
  with i1_le r1 have no_dec: "\<not> x < linspace lo hi (Suc n) ! nat i1"
    by simp
  have inc_iff: "(linspace lo hi (Suc n) ! nat (i1 + 1) \<le> x) = (real (nat (i1 + 1)) \<le> t)"
    unfolding e2 t_def by (rule edge_le_iff [OF assms(1,2)])
  have no_inc: "\<not> (linspace lo hi (Suc n) ! nat (i1 + 1) \<le> x \<and> i1 \<noteq> int n - 1)"
  proof
    assume a: "linspace lo hi (Suc n) ! nat (i1 + 1) \<le> x \<and> i1 \<noteq> int n - 1"
    then have "i1 = \<lfloor>t\<rfloor>" by (simp add: i1_def min_def split: if_splits)
    moreover have "real_of_int i1 + 1 \<le> t"
      using a inc_iff r2 by simp
    ultimately show False by linarith
  qed
  have a0: "astype_intp t = \<lfloor>t\<rfloor>" using t0 by (simp add: astype_intp_def)
  have "bin_index lo hi n (linspace lo hi (Suc n)) x = i1"
    unfolding bin_index_def Let_def t_def [symmetric] a0 i1_alt
    using no_dec no_inc by presburger
  then show ?thesis by (simp add: i1_def t_def bin_of_def)
qed


lemma bin_of_range:
  assumes "lo < hi" and "0 < n" and "lo \<le> x" and "x \<le> hi"
  shows "0 \<le> bin_of lo hi n x" and "bin_of lo hi n x < int n"
proof -
  have "0 \<le> (x - lo) / (hi - lo) * real n"
    by (rule scaled_range [OF assms(1,3,4)])
  then have "0 \<le> \<lfloor>(x - lo) / (hi - lo) * real n\<rfloor>" by simp
  then show "0 \<le> bin_of lo hi n x" using assms(2) by (simp add: bin_of_def)
  show "bin_of lo hi n x < int n" by (simp add: bin_of_def)
qed

lemma get_outer_edges_range:
  assumes "get_outer_edges vs = (lo, hi)"
  shows "lo < hi" and "\<forall>x\<in>set vs. lo \<le> x \<and> x \<le> hi"
proof -
  show "lo < hi"
  proof (cases "vs = []")
    case True
    with assms show ?thesis by (simp add: get_outer_edges_def)
  next
    case False
    then have "Min (set vs) \<le> Max (set vs)" by simp
    then have "Min (set vs) = Max (set vs) \<or> Min (set vs) < Max (set vs)" by linarith
    with assms False show ?thesis
      by (auto simp: get_outer_edges_def Let_def split: if_splits)
  qed
  show "\<forall>x\<in>set vs. lo \<le> x \<and> x \<le> hi"
  proof
    fix x assume x: "x \<in> set vs"
    then have ne: "vs \<noteq> []" by auto
    define m where "m = Min (set vs)"
    define M where "M = Max (set vs)"
    have "get_outer_edges vs = (if m = M then (m - 1 / 2, M + 1 / 2) else (m, M))"
      using ne by (simp add: get_outer_edges_def Let_def m_def M_def)
    with assms have "lo \<le> m \<and> M \<le> hi" by (auto split: if_splits)
    moreover have "m \<le> x" "x \<le> M" using x by (simp_all add: m_def M_def)
    ultimately show "lo \<le> x \<and> x \<le> hi" by linarith
  qed
qed

lemma bincount_in_range:
  assumes "\<forall>i\<in>set idx. 0 \<le> i \<and> i < int n"
  shows "bincount idx n = Inr (map (\<lambda>b. int (length (filter (\<lambda>i. i = int b) idx))) [0..<n])"
proof (cases "idx = []")
  case True
  then show ?thesis by (simp add: bincount_def)
next
  case False
  then have "Max (set idx) \<in> set idx" by simp
  with assms have "0 \<le> Max (set idx)" "Max (set idx) < int n" by auto
  then have "max n (nat (Max (set idx)) + 1) = n" by simp
  moreover have "\<not> list_ex (\<lambda>i. i < 0) idx"
    using assms by (auto simp: list_ex_iff)
  ultimately show ?thesis using False by (simp add: bincount_def)
qed

lemma histogram_bins_eq:
  assumes "those a = Some vs" and "0 < n" and "get_outer_edges vs = (lo, hi)"
  shows "histogram_bins a n =
           Inr (map (\<lambda>b. int (length (filter (\<lambda>x. bin_of lo hi n x = int b) vs))) [0..<n],
                linspace lo hi (Suc n))"
proof -
  note r = get_outer_edges_range [OF assms(3)]
  have keep: "filter (\<lambda>x. lo \<le> x \<and> x \<le> hi) vs = vs"
    using r(2) by (simp add: filter_id_conv)
  have idx: "map (bin_index lo hi n (linspace lo hi (Suc n))) vs = map (bin_of lo hi n) vs"
    using r by (intro map_cong refl bin_index_exact) (simp_all add: assms(2))
  have rng: "\<forall>i\<in>set (map (bin_of lo hi n) vs). 0 \<le> i \<and> i < int n"
    using r bin_of_range [OF r(1) assms(2)] by auto
  have cnt: "length (filter (\<lambda>i. i = int b) (map (bin_of lo hi n) vs))
             = length (filter (\<lambda>x. bin_of lo hi n x = int b) vs)" for b
    by (simp add: filter_map o_def)
  show ?thesis
    by (simp add: histogram_bins_def assms Let_def keep idx bincount_in_range [OF rng] comp_def)
qed

lemma count_between:
  fixes p q :: real
  assumes "p \<le> q"
  shows "int (length (filter (\<lambda>x. x < q) a)) - int (length (filter (\<lambda>x. x < p) a))
         = int (length (filter (\<lambda>x. p \<le> x \<and> x < q) a))"
  using assms by (induction a) auto

lemma count_between_closed:
  fixes p q :: real
  assumes "p \<le> q"
  shows "int (length (filter (\<lambda>x. x \<le> q) a)) - int (length (filter (\<lambda>x. x < p) a))
         = int (length (filter (\<lambda>x. p \<le> x \<and> x \<le> q) a))"
  using assms by (induction a) auto

lemma length_search_sorted_inclusive:
  "length (search_sorted_inclusive a v) = length v"
  by (cases "v = []") (simp_all add: search_sorted_inclusive_def)

lemma search_sorted_inclusive_nth:
  assumes "i < length v"
  shows "search_sorted_inclusive a v ! i =
           (if Suc i = length v then int (length (filter (\<lambda>x. x \<le> v ! i) a))
            else int (length (filter (\<lambda>x. x < v ! i) a)))"
proof -
  have ne: "v \<noteq> []" using assms by auto
  show ?thesis
  proof (cases "Suc i = length v")
    case True
    then have "i = length (butlast v)" by simp
    moreover have "length v - 1 = i" using True by simp
    then have "last v = v ! i" using ne by (simp add: last_conv_nth)
    ultimately show ?thesis using True ne
      by (simp add: search_sorted_inclusive_def nth_append)
  next
    case False
    then have "i < length (butlast v)" using assms by simp
    then show ?thesis using False ne
      by (simp add: search_sorted_inclusive_def nth_append nth_butlast)
  qed
qed

lemma length_np_diff: "length (np_diff xs) = length xs - 1"
  by (simp add: np_diff_def)

lemma np_diff_nth: "Suc i < length xs \<Longrightarrow> np_diff xs ! i = xs ! Suc i - xs ! i"
  by (simp add: np_diff_def nth_tl)

lemma histogram_counts_nth:
  assumes "sorted v" and "Suc i < length v"
  shows "np_diff (search_sorted_inclusive a v) ! i = int (length (filter (in_bin v i) a))"
proof -
  have le: "v ! i \<le> v ! Suc i"
    using assms by (simp add: sorted_iff_nth_mono)
  have "np_diff (search_sorted_inclusive a v) ! i
        = search_sorted_inclusive a v ! Suc i - search_sorted_inclusive a v ! i"
    using assms(2) by (simp add: np_diff_nth length_search_sorted_inclusive)
  also have "\<dots> = int (length (filter (in_bin v i) a))"
  proof (cases "Suc (Suc i) = length v")
    case True
    then have "in_bin v i = (\<lambda>x. v ! i \<le> x \<and> x \<le> v ! Suc i)"
      by (simp add: in_bin_def fun_eq_iff)
    then show ?thesis
      using True assms(2) count_between_closed [OF le, of a]
      by (simp add: search_sorted_inclusive_nth)
  next
    case False
    then have "in_bin v i = (\<lambda>x. v ! i \<le> x \<and> x < v ! Suc i)"
      by (simp add: in_bin_def fun_eq_iff)
    then show ?thesis
      using False assms(2) count_between [OF le, of a]
      by (simp add: search_sorted_inclusive_nth)
  qed
  finally show ?thesis .
qed

lemma sorted_linspace:
  assumes "lo \<le> hi" and "0 < n"
  shows "sorted (linspace lo hi (Suc n))"
proof -
  have "linspace lo hi (Suc n) ! i \<le> linspace lo hi (Suc n) ! j" if "i \<le> j" "j \<le> n" for i j
  proof -
    have "0 \<le> (hi - lo) / real n" using assms by simp
    then have "real i * ((hi - lo) / real n) \<le> real j * ((hi - lo) / real n)"
      using that(1) by (intro mult_right_mono) simp_all
    then show ?thesis
      using that assms(2) by (simp add: linspace_nth)
  qed
  then show ?thesis
    by (simp add: sorted_iff_nth_mono length_linspace less_Suc_eq_le del: upt_Suc)
qed

lemma monotone_edges:
  assumes "sorted v"
  shows "\<not> list_ex (\<lambda>(l, r). r < l) (zip v (tl v))"
proof
  assume "list_ex (\<lambda>(l, r). r < l) (zip v (tl v))"
  then obtain l r where "(l, r) \<in> set (zip v (tl v))" and "r < l"
    by (auto simp: list_ex_iff)
  then obtain i where "v ! i = l" "tl v ! i = r" "i < length v" "i < length (tl v)"
    by (auto simp: in_set_zip)
  then have "v ! i \<le> v ! Suc i" using assms by (intro sorted_nth_mono) simp_all
  with \<open>v ! i = l\<close> \<open>tl v ! i = r\<close> \<open>i < length (tl v)\<close> have "l \<le> r" by (simp add: nth_tl)
  with \<open>r < l\<close> show False by simp
qed

lemma map_filter_those: "those a = Some vs \<Longrightarrow> List.map_filter (\<lambda>x. x) a = vs"
  by (induction a arbitrary: vs) (auto simp: List.map_filter_simps split: option.splits)

lemma histogram_edges_eq:
  assumes "sorted v" and "those a = Some vs" and "length v = Suc n"
  shows "histogram_edges a v = Inr (map (\<lambda>b. int (length (filter (in_bin v b) vs))) [0..<n])"
proof -
  have "np_diff (search_sorted_inclusive vs v) = map (\<lambda>b. int (length (filter (in_bin v b) vs))) [0..<n]"
    using assms(1,3)
    by (intro nth_equalityI)
       (simp_all add: length_np_diff length_search_sorted_inclusive histogram_counts_nth)
  then show ?thesis
    using monotone_edges [OF assms(1)]
    by (simp add: histogram_edges_def map_filter_those [OF assms(2)])
qed

lemma np_max_eq: "xs \<noteq> [] \<Longrightarrow> np_max xs = Inr (Max (set xs))"
  by (cases xs) (simp_all add: np_max_def Max.set_eq_fold [symmetric])

section \<open>Rows and columns of a selection\<close>

lemma map_of_map_values:
  "map_of (map (\<lambda>(name, c). (name, f name c)) d) k = map_option (f k) (map_of d k)"
  by (induction d) auto

lemma getcol_empty_frame:
  "getcol (empty_frame d) col = (case getcol d col of Inl e \<Rightarrow> Inl e | Inr c \<Rightarrow> Inr (ObjCol []))"
  using map_of_map_values [of "\<lambda>_ _. ObjCol []" d col]
  by (simp add: getcol_def empty_frame_def split: option.splits)

lemma getcol_iloc:
  assumes "iloc d sel = Inr s"
  shows "\<exists>js. those (map (norm_index (nrows d)) sel) = Some js
           \<and> getcol s col = (case getcol d col of Inl e \<Rightarrow> Inl e | Inr c \<Rightarrow> Inr (take_rows c js))"
proof -
  from assms obtain js where js: "those (map (norm_index (nrows d)) sel) = Some js"
    and s: "s = map (\<lambda>(name, c). (name, take_rows c js)) d"
    by (auto simp: iloc_def split: option.splits)
  have "getcol s col = (case getcol d col of Inl e \<Rightarrow> Inl e | Inr c \<Rightarrow> Inr (take_rows c js))"
    using map_of_map_values [of "\<lambda>_ c. take_rows c js" d col]
    by (simp add: getcol_def s split: option.splits)
  with js show ?thesis by blast
qed

lemma wf_df_col_len:
  assumes "wf_df d" and "getcol d col = Inr c"
  shows "col_len c = nrows d"
proof -
  from assms(2) have "(col, c) \<in> set d"
    by (auto simp: getcol_def split: option.splits dest: map_of_SomeD)
  with assms(1) show ?thesis
    by (auto simp: wf_df_def list_all_iff)
qed

lemma those_map_bound:
  assumes "those (map (norm_index n) sel) = Some js"
  shows "\<forall>j\<in>set js. j < n"
  using assms
proof (induction sel arbitrary: js)
  case Nil
  then show ?case by simp
next
  case (Cons i sel)
  then show ?case
    by (auto simp: norm_index_def split: option.splits if_splits)
qed

lemma those_map_Some: "those (map Some xs) = Some xs"
  by (induction xs) auto

lemma those_nths:
  assumes "those xs = Some vs" and "\<forall>j\<in>set js. j < length xs"
  shows "those (map (\<lambda>j. xs ! j) js) = Some (map (\<lambda>j. vs ! j) js)"
proof -
  have xs: "xs = map Some vs"
    using assms(1) by (induction xs arbitrary: vs) (auto split: option.splits)
  then have "map (\<lambda>j. xs ! j) js = map Some (map (\<lambda>j. vs ! j) js)"
    using assms(2) by simp
  then show ?thesis by (simp only: those_map_Some)
qed

lemma histogram_input_numeric:
  "is_numeric_dtype c \<Longrightarrow> histogram_input c = Inr (series_floats c)"
  by (cases c) simp_all

section \<open>What \<open>draw_hist\<close> returns\<close>

lemma length_hist_edges: "length (hist_edges vs n) = Suc n"
  by (simp add: hist_edges_def length_linspace split: prod.splits)

lemma length_all_bins: "length (all_bins vs n) = n"
  by (simp add: all_bins_def split: prod.splits)

lemma length_selected_bins: "length (selected_bins edges vs) = length edges - 1"
  by (simp add: selected_bins_def)

lemma sorted_hist_edges: "0 < n \<Longrightarrow> sorted (hist_edges vs n)"
proof -
  assume n: "0 < n"
  obtain lo hi where e: "get_outer_edges vs = (lo, hi)" by (cases "get_outer_edges vs")
  from get_outer_edges_range(1) [OF e] have "lo \<le> hi" by simp
  then show ?thesis using n by (simp add: hist_edges_def e sorted_linspace)
qed

lemma histogram_bins_all:
  assumes "those a = Some vs" and "0 < n"
  shows "histogram_bins a n = Inr (all_bins vs n, hist_edges vs n)"
proof -
  obtain lo hi where e: "get_outer_edges vs = (lo, hi)" by (cases "get_outer_edges vs")
  show ?thesis
    by (simp add: histogram_bins_eq [OF assms e] all_bins_def hist_edges_def e)
qed

lemma histogram_edges_selected:
  assumes "sorted v" and "those a = Some vs" and "v \<noteq> []"
  shows "histogram_edges a v = Inr (selected_bins v vs)"
proof -
  from assms(3) have "length v = Suc (length v - 1)" by simp
  from histogram_edges_eq [OF assms(1,2) this] show ?thesis
    by (simp add: selected_bins_def)
qed

lemma selected_bins_empty: "selected_bins edges [] = replicate (length edges - 1) 0"
  by (simp add: selected_bins_def map_replicate_const)

lemma those_norm_index:
  assumes "\<forall>i\<in>set sel. 0 \<le> i \<and> i < int n"
  shows "those (map (norm_index n) sel) = Some (map nat sel)"
  using assms by (induction sel) (simp_all add: norm_index_def)

lemma length_histogram_input:
  "histogram_input c = Inr a \<Longrightarrow> length a = col_len c"
  by (cases c) (auto split: if_splits)

lemma histogram_input_rows:
  assumes "histogram_input c = Inr a" and "\<forall>j\<in>set js. j < col_len c"
  shows "histogram_input (take_rows c js) = Inr (map (\<lambda>j. a ! j) js)"
  using assms by (cases c) (auto split: if_splits)

lemma draw_hist_returns:
  assumes wf: "wf_df d" and col: "getcol d col = Inr c" and hin: "histogram_input c = Inr a"
    and vals: "those a = Some vs"
    and sel: "those (map (norm_index (nrows d)) sel) = Some js"
  shows "draw_hist d col sel =
           Inr \<lparr>left = butlast (hist_edges vs 50), right = tl (hist_edges vs 50),
                all_counts = all_bins vs 50,
                selected_counts = selected_bins (hist_edges vs 50) (map (\<lambda>j. vs ! j) js),
                hist_y_end = 11 / 10 * real_of_int (Max (set (all_bins vs 50))),
                hist_title = ''Histogram of '' @ col\<rparr>"
proof -
  have len: "length a = nrows d"
    using length_histogram_input [OF hin] wf_df_col_len [OF wf col] by simp
  have bound: "\<forall>j\<in>set js. j < nrows d" by (rule those_map_bound [OF sel])
  have first: "histogram_bins a 50 = Inr (all_bins vs 50, hist_edges vs 50)"
    by (rule histogram_bins_all [OF vals]) simp
  have srt: "sorted (hist_edges vs 50)" by (rule sorted_hist_edges) simp
  have ne: "hist_edges vs 50 \<noteq> []" using length_hist_edges [of vs 50] by auto
  have top_ne: "all_bins vs 50 \<noteq> []" using length_all_bins [of vs 50] by auto
  have second: "\<exists>s c_s a_s.
      (if sel = [] then Inr (empty_frame d) else iloc d sel) = Inr s
      \<and> getcol s col = Inr c_s \<and> histogram_input c_s = Inr a_s
      \<and> those a_s = Some (map (\<lambda>j. vs ! j) js)"
  proof (cases "sel = []")
    case True
    with sel have "js = []" by simp
    with True col show ?thesis by (simp add: getcol_empty_frame)
  next
    case False
    from sel have il: "iloc d sel = Inr (map (\<lambda>(name, c). (name, take_rows c js)) d)"
      by (simp add: iloc_def)
    from getcol_iloc [OF il, of col] sel col
    have g: "getcol (map (\<lambda>(name, c). (name, take_rows c js)) d) col = Inr (take_rows c js)"
      by simp
    have b: "\<forall>j\<in>set js. j < col_len c" using bound wf_df_col_len [OF wf col] by simp
    have h: "histogram_input (take_rows c js) = Inr (map (\<lambda>j. a ! j) js)"
      by (rule histogram_input_rows [OF hin b])
    have t: "those (map (\<lambda>j. a ! j) js) = Some (map (\<lambda>j. vs ! j) js)"
      using bound len by (intro those_nths [OF vals]) simp
    from False il g h t show ?thesis by simp
  qed
  then obtain s c_s a_s where s: "(if sel = [] then Inr (empty_frame d) else iloc d sel) = Inr s"
    and cs: "getcol s col = Inr c_s" and as: "histogram_input c_s = Inr a_s"
    and ts: "those a_s = Some (map (\<lambda>j. vs ! j) js)" by blast
  have third: "histogram_edges a_s (hist_edges vs 50)
               = Inr (selected_bins (hist_edges vs 50) (map (\<lambda>j. vs ! j) js))"
    by (rule histogram_edges_selected [OF srt ts ne])
  show ?thesis
    unfolding draw_hist_def
    by (simp only: s col cs as hin first third
          np_max_eq [OF top_ne] sum.case prod.case)
qed

section \<open>Valid selections\<close>

lemma list_all_nat_index: "list_all (\<lambda>i. 0 \<le> i \<and> i < int n) sel \<Longrightarrow> \<forall>j\<in>set (map nat sel). j < n"
  by (auto simp: list_all_iff)

lemma those_None: "those xs = None \<Longrightarrow> None \<in> set xs"
  by (induction xs) (auto split: option.splits)

lemma wf_demo_table: "wf_df demo_table"
  by (simp add: wf_df_def demo_table_def nrows_def)

lemma nrows_demo_table: "nrows demo_table = 3"
  by (simp add: demo_table_def nrows_def)

section \<open>The two histograms of one call\<close>

text \<open>
  C5 (amended). For a numeric feature without missing values and a selection of valid row
  indices, \<open>draw_hist\<close> computes the 50-bin histogram of all rows' values, which fixes 51
  edges, then the histogram of the selected rows' values over exactly these edges, and
  returns both sets of counts over the one list of edges. With the empty selection it
  returns the same edges and the same 'all' counts, and fifty zeros as 'selected' counts.
\<close>

theorem draw_hist_shared_edges:
  assumes "wf_df d" and "getcol d col = Inr c" and "is_numeric_dtype c"
    and "None \<notin> set (series_floats c)"
    and "list_all (\<lambda>i. 0 \<le> i \<and> i < int (nrows d)) sel"
  shows "\<exists>top_all edges top_s.
           histogram_bins (series_floats c) 50 = Inr (top_all, edges)
         \<and> histogram_edges (map (\<lambda>i. series_floats c ! nat i) sel) edges = Inr top_s
         \<and> length edges = 51 \<and> length top_all = 50 \<and> length top_s = 50
         \<and> draw_hist d col sel =
             Inr \<lparr>left = butlast edges, right = tl edges, all_counts = top_all,
                  selected_counts = top_s,
                  hist_y_end = 11 / 10 * real_of_int (Max (set top_all)),
                  hist_title = ''Histogram of '' @ col\<rparr>
         \<and> draw_hist d col [] =
             Inr \<lparr>left = butlast edges, right = tl edges, all_counts = top_all,
                  selected_counts = replicate 50 0,
                  hist_y_end = 11 / 10 * real_of_int (Max (set top_all)),
                  hist_title = ''Histogram of '' @ col\<rparr>"
proof -
  obtain vs where vs: "those (series_floats c) = Some vs"
    using assms(4) those_None [of "series_floats c"] by (cases "those (series_floats c)") auto
  have hin: "histogram_input c = Inr (series_floats c)"
    by (rule histogram_input_numeric [OF assms(3)])
  have js: "those (map (norm_index (nrows d)) sel) = Some (map nat sel)"
    using assms(5) by (intro those_norm_index) (simp add: list_all_iff)
  have len: "length (series_floats c) = nrows d"
    using length_histogram_input [OF hin] wf_df_col_len [OF assms(1,2)] by simp
  have bj: "\<forall>j\<in>set (map nat sel). j < length (series_floats c)"
    using list_all_nat_index [OF assms(5)] len by simp
  let ?E = "hist_edges vs 50"
  have srt: "sorted ?E" by (rule sorted_hist_edges) simp
  have ne: "?E \<noteq> []" using length_hist_edges [of vs 50] by auto
  have first: "histogram_bins (series_floats c) 50 = Inr (all_bins vs 50, ?E)"
    by (rule histogram_bins_all [OF vs]) simp
  have "those (map (\<lambda>j. series_floats c ! j) (map nat sel)) = Some (map (\<lambda>j. vs ! j) (map nat sel))"
    by (rule those_nths [OF vs bj])
  then have t: "those (map (\<lambda>i. series_floats c ! nat i) sel) = Some (map (\<lambda>j. vs ! j) (map nat sel))"
    by (simp add: comp_def)
  have second: "histogram_edges (map (\<lambda>i. series_floats c ! nat i) sel) ?E
                = Inr (selected_bins ?E (map (\<lambda>j. vs ! j) (map nat sel)))"
    by (rule histogram_edges_selected [OF srt t ne])
  have d1: "draw_hist d col sel =
           Inr \<lparr>left = butlast ?E, right = tl ?E, all_counts = all_bins vs 50,
                selected_counts = selected_bins ?E (map (\<lambda>j. vs ! j) (map nat sel)),
                hist_y_end = 11 / 10 * real_of_int (Max (set (all_bins vs 50))),
                hist_title = ''Histogram of '' @ col\<rparr>"
    by (rule draw_hist_returns [OF assms(1,2) hin vs js])
  have "those (map (norm_index (nrows d)) []) = Some []" by simp
  from draw_hist_returns [OF assms(1,2) hin vs this]
  have d0: "draw_hist d col [] =
           Inr \<lparr>left = butlast ?E, right = tl ?E, all_counts = all_bins vs 50,
                selected_counts = replicate 50 0,
                hist_y_end = 11 / 10 * real_of_int (Max (set (all_bins vs 50))),
                hist_title = ''Histogram of '' @ col\<rparr>"
    by (simp add: selected_bins_empty length_hist_edges)
  have "length ?E = 51" by (simp add: length_hist_edges)
  moreover have "length (all_bins vs 50) = 50" by (simp add: length_all_bins)
  moreover have "length (selected_bins ?E (map (\<lambda>j. vs ! j) (map nat sel))) = 50"
    by (simp add: length_selected_bins length_hist_edges)
  ultimately show ?thesis using first second d1 d0 by blast
qed

theorem draw_hist_shared_edges_witness:
  "wf_df demo_table
   \<and> getcol demo_table ''Mean Recommendation'' = Inr (NumCol [Some 1, Some 2, Some 4])
   \<and> is_numeric_dtype (NumCol [Some 1, Some 2, Some 4])
   \<and> None \<notin> set (series_floats (NumCol [Some 1, Some 2, Some 4]))
   \<and> list_all (\<lambda>i. 0 \<le> i \<and> i < int (nrows demo_table)) [2, 0]
   \<and> (\<exists>top_all edges top_s.
           histogram_bins (series_floats (NumCol [Some 1, Some 2, Some 4])) 50 = Inr (top_all, edges)
         \<and> histogram_edges (map (\<lambda>i. series_floats (NumCol [Some 1, Some 2, Some 4]) ! nat i) [2, 0]) edges = Inr top_s
         \<and> length edges = 51 \<and> length top_all = 50 \<and> length top_s = 50
         \<and> draw_hist demo_table ''Mean Recommendation'' [2, 0] =
             Inr \<lparr>left = butlast edges, right = tl edges, all_counts = top_all,
                  selected_counts = top_s,
                  hist_y_end = 11 / 10 * real_of_int (Max (set top_all)),
                  hist_title = ''Histogram of '' @ ''Mean Recommendation''\<rparr>
         \<and> draw_hist demo_table ''Mean Recommendation'' [] =
             Inr \<lparr>left = butlast edges, right = tl edges, all_counts = top_all,
                  selected_counts = replicate 50 0,
                  hist_y_end = 11 / 10 * real_of_int (Max (set top_all)),
                  hist_title = ''Histogram of '' @ ''Mean Recommendation''\<rparr>)"
proof -
  have g: "getcol demo_table ''Mean Recommendation'' = Inr (NumCol [Some 1, Some 2, Some 4])"
    by (simp add: getcol_def demo_table_def)
  have n: "is_numeric_dtype (NumCol [Some 1, Some 2, Some 4])" by simp
  have m: "None \<notin> set (series_floats (NumCol [Some 1, Some 2, Some 4]))" by simp
  have v: "list_all (\<lambda>i. 0 \<le> i \<and> i < int (nrows demo_table)) [2, 0]"
    by (simp add: nrows_demo_table)
  from draw_hist_shared_edges [OF wf_demo_table g n m v] g n m v wf_demo_table
  show ?thesis by blast
qed

theorem draw_hist_missing_value_counterexample:
  "wf_df gappy_table
   \<and> getcol gappy_table ''Mean Recommendation'' = Inr (NumCol [Some 1, None])
   \<and> is_numeric_dtype (NumCol [Some 1, None])
   \<and> draw_hist gappy_table ''Mean Recommendation'' [] = Inl ValueError"
  by (simp add: wf_df_def gappy_table_def nrows_def getcol_def draw_hist_def empty_frame_def
        histogram_bins_def)

section \<open>The session\<close>

lemma demo_labelled:
  "setcol demo_table ''label'' (ObjCol (replicate 3 (Some ''Market Cap''))) =
     demo_table @ [(''label'', ObjCol [Some ''Market Cap'', Some ''Market Cap'', Some ''Market Cap''])]"
  by (simp add: setcol_def demo_table_def numeral_3_eq_3)

lemma wf_demo_labelled: "wf_df (demo_table @ [(''label'', ObjCol [Some ''Market Cap'', Some ''Market Cap'', Some ''Market Cap''])])"
  by (simp add: wf_df_def demo_table_def nrows_def)

lemma plot_pca_demo:
  "plot_pca src (demo_table @ [(''label'', ObjCol [Some ''Market Cap'', Some ''Market Cap'', Some ''Market Cap''])]) ''Market Cap''
   = Inr \<lparr>scatter_title = ''PCA with Color Map on Market Cap'',
         fill_color = LogCmap ''Market Cap'' Turbo256 (Some 10) (Some 35),
         legend_field = ''label'', color_bar = Some (Some 10, Some 35), legend_left = False\<rparr>"
  by (simp add: plot_pca_def create_cmap_def getcol_def demo_table_def py_min_def py_max_def py_lt_def)

lemma df_demo_session:
  "df demo_session = demo_table @ [(''label'', ObjCol [Some ''Market Cap'', Some ''Market Cap'', Some ''Market Cap''])]"
  "p_pca_source demo_session = demo_table @ [(''label'', ObjCol [Some ''Market Cap'', Some ''Market Cap'', Some ''Market Cap''])]"
  by (simp_all add: demo_session_def demo_labelled)

lemma startup_demo: "startup demo_table = Inr demo_session"
proof -
  let ?d = "demo_table @ [(''label'', ObjCol [Some ''Market Cap'', Some ''Market Cap'', Some ''Market Cap''])]"
  have g: "getcol ?d ''Mean Recommendation'' = Inr (NumCol [Some 1, Some 2, Some 4])"
    by (simp add: getcol_def demo_table_def)
  have h: "histogram_input (NumCol [Some 1, Some 2, Some 4]) = Inr [Some 1, Some 2, Some 4]" by simp
  have t: "those [Some (1::real), Some 2, Some 4] = Some [1, 2, 4]" by simp
  have s: "those (map (norm_index (nrows ?d)) []) = Some []" by simp
  have "draw_subplot ?d ''Mean Recommendation'' [] = Inr (layout_sub demo_session)"
    using draw_hist_returns [OF wf_demo_labelled g h t s]
    by (simp add: draw_subplot_def g demo_session_def selected_bins_empty length_hist_edges)
  moreover have "nrows demo_table = 3" by (rule nrows_demo_table)
  ultimately show ?thesis
    by (simp add: startup_def Let_def demo_labelled plot_pca_demo demo_session_def)
qed


text \<open>
  Whatever the table, a session that starts has the name of the colour feature in every
  row of \<^verbatim>\<open>label\<close>.
\<close>

lemma startup_label:
  assumes "startup d0 = Inr st"
  shows "pca_ft_selected st = ''Market Cap'' \<and> points_selected st = []
       \<and> p_pca_source st = df st
       \<and> getcol (df st) ''label'' = Inr (ObjCol (replicate (nrows d0) (Some ''Market Cap'')))"
  using assms
  by (auto simp: startup_def Let_def getcol_setcol_same split: sum.splits)

text \<open>
  C4, at start-up. The start-up code succeeds on \<open>demo_table\<close> and leaves the session
  \<open>demo_session\<close>, in which the \<^verbatim>\<open>label\<close> column, of the frame and of the data
  source alike, holds the \<^emph>\<open>name\<close> \<^verbatim>\<open>Market Cap\<close> in every row, while the column
  named by \<open>pca_ft_selected\<close> holds the values 10, 20 and 35.
\<close>

theorem startup_label_holds_the_name:
  "startup demo_table = Inr demo_session
   \<and> pca_ft_selected demo_session = ''Market Cap''
   \<and> getcol (p_pca_source demo_session) ''label''
       = Inr (ObjCol [Some ''Market Cap'', Some ''Market Cap'', Some ''Market Cap''])
   \<and> getcol (df demo_session) ''label''
       = Inr (ObjCol [Some ''Market Cap'', Some ''Market Cap'', Some ''Market Cap''])
   \<and> getcol (df demo_session) (pca_ft_selected demo_session)
       = Inr (NumCol [Some 10, Some 20, Some 35])"
proof -
  have p: "pca_ft_selected demo_session = ''Market Cap''" by (simp add: demo_session_def)
  have "getcol (demo_table @ [(''label'', ObjCol [Some ''Market Cap'', Some ''Market Cap'', Some ''Market Cap''])]) ''label''
          = Inr (ObjCol [Some ''Market Cap'', Some ''Market Cap'', Some ''Market Cap''])"
    and "getcol (demo_table @ [(''label'', ObjCol [Some ''Market Cap'', Some ''Market Cap'', Some ''Market Cap''])]) ''Market Cap''
          = Inr (NumCol [Some 10, Some 20, Some 35])"
    by (simp_all add: getcol_def demo_table_def)
  with p startup_demo show ?thesis
    by (simp only: df_demo_session simp_thms)
qed

text \<open>
  C1 (amended). For every name that is not a column of the frame, \<open>update_pca_col\<close> raises
  \<^verbatim>\<open>KeyError\<close> and leaves the frame, the data source with its \<^verbatim>\<open>label\<close>
  column, \<open>sub_ft_selected\<close>, \<open>points_selected\<close> and both plots as they were; the one
  change is that \<open>pca_ft_selected\<close> already holds the rejected name, since the global is
  assigned before the column is looked up.
\<close>

theorem update_pca_col_unknown_column:
  assumes "new \<notin> set (map fst (df st))"
  shows "update_pca_col st new = (st\<lparr>pca_ft_selected := new\<rparr>, Some KeyError)"
proof -
  from assms have "map_of (df st) new = None"
    by (simp add: map_of_eq_None_iff)
  then show ?thesis
    by (simp add: update_pca_col_def getcol_def Let_def)
qed

theorem update_pca_col_unknown_column_witness:
  "''NoSuchColumn'' \<notin> set (map fst (df demo_session))
   \<and> update_pca_col demo_session ''NoSuchColumn''
       = (demo_session\<lparr>pca_ft_selected := ''NoSuchColumn''\<rparr>, Some KeyError)"
proof -
  have "''NoSuchColumn'' \<notin> set (map fst (df demo_session))"
    by (simp add: df_demo_session demo_table_def)
  with update_pca_col_unknown_column [of "''NoSuchColumn''" demo_session]
  show ?thesis by simp
qed

theorem update_pca_col_unknown_column_counterexample:
  "''NoSuchColumn'' \<notin> set (map fst (df demo_session))
   \<and> snd (update_pca_col demo_session ''NoSuchColumn'') = Some KeyError
   \<and> pca_ft_selected demo_session = ''Market Cap''
   \<and> pca_ft_selected (fst (update_pca_col demo_session ''NoSuchColumn'')) = ''NoSuchColumn''
   \<and> fst (update_pca_col demo_session ''NoSuchColumn'') \<noteq> demo_session"
proof -
  have n: "''NoSuchColumn'' \<notin> set (map fst (df demo_session))"
    by (simp add: df_demo_session demo_table_def)
  then have "map_of (df demo_session) ''NoSuchColumn'' = None"
    by (simp add: map_of_eq_None_iff)
  then have u: "update_pca_col demo_session ''NoSuchColumn''
             = (demo_session\<lparr>pca_ft_selected := ''NoSuchColumn''\<rparr>, Some KeyError)"
    by (simp add: update_pca_col_def getcol_def Let_def)
  have p: "pca_ft_selected demo_session = ''Market Cap''" by (simp add: demo_session_def)
  have "demo_session\<lparr>pca_ft_selected := ''NoSuchColumn''\<rparr> \<noteq> demo_session"
  proof
    assume "demo_session\<lparr>pca_ft_selected := ''NoSuchColumn''\<rparr> = demo_session"
    then have "pca_ft_selected (demo_session\<lparr>pca_ft_selected := ''NoSuchColumn''\<rparr>) = pca_ft_selected demo_session"
      by simp
    with p show False by simp
  qed
  with n u p show ?thesis by simp
qed

text \<open>
  C7. \<open>update_sub_col\<close> never writes \<open>points_selected\<close> (nor the frame): the selection
  after the callback is the selection before it, and the subplot the callback puts into
  the layout is \<open>draw_subplot\<close> of the new feature on that same selection. When
  \<open>draw_subplot\<close> raises, the old subplot stays and the exception is reported.
\<close>

theorem update_sub_col_keeps_selection:
  "points_selected (fst (update_sub_col st new)) = points_selected st
   \<and> df (fst (update_sub_col st new)) = df st
   \<and> sub_ft_selected (fst (update_sub_col st new)) = new
   \<and> (case draw_subplot (df st) new (points_selected st) of
         Inl e \<Rightarrow> snd (update_sub_col st new) = Some e
                  \<and> layout_sub (fst (update_sub_col st new)) = layout_sub st
       | Inr p \<Rightarrow> snd (update_sub_col st new) = None
                  \<and> layout_sub (fst (update_sub_col st new)) = p)"
  by (simp add: update_sub_col_def Let_def split: sum.splits)

theorem update_sub_col_keeps_selection_witness:
  "points_selected (demo_session\<lparr>points_selected := [0, 2]\<rparr>) = [0, 2]
   \<and> points_selected (fst (update_sub_col (demo_session\<lparr>points_selected := [0, 2]\<rparr>) ''Market Cap'')) = [0, 2]
   \<and> snd (update_sub_col (demo_session\<lparr>points_selected := [0, 2]\<rparr>) ''Market Cap'') = None
   \<and> draw_subplot (df demo_session) ''Market Cap'' [0, 2]
       = Inr (layout_sub (fst (update_sub_col (demo_session\<lparr>points_selected := [0, 2]\<rparr>) ''Market Cap'')))"
proof -
  let ?d = "demo_table @ [(''label'', ObjCol [Some ''Market Cap'', Some ''Market Cap'', Some ''Market Cap''])]"
  let ?st = "demo_session\<lparr>points_selected := [0, 2]\<rparr>"
  have d: "df ?st = ?d" by (simp add: df_demo_session)
  have g: "getcol ?d ''Market Cap'' = Inr (NumCol [Some 10, Some 20, Some 35])"
    by (simp add: getcol_def demo_table_def)
  have h: "histogram_input (NumCol [Some 10, Some 20, Some 35]) = Inr [Some 10, Some 20, Some 35]" by simp
  have t: "those [Some (10::real), Some 20, Some 35] = Some [10, 20, 35]" by simp
  have s: "those (map (norm_index (nrows ?d)) [0, 2]) = Some [0, 2]"
    by (simp add: nrows_def demo_table_def norm_index_def)
  from draw_hist_returns [OF wf_demo_labelled g h t s]
  obtain ph where "draw_hist ?d ''Market Cap'' [0, 2] = Inr ph" by blast
  then have ds: "draw_subplot (df ?st) ''Market Cap'' (points_selected ?st) = Inr (Histogram ph)"
    by (simp add: d draw_subplot_def g)
  from update_sub_col_keeps_selection [of ?st "''Market Cap''"] ds
  have "points_selected (fst (update_sub_col ?st ''Market Cap'')) = [0, 2]"
    and "snd (update_sub_col ?st ''Market Cap'') = None"
    and "layout_sub (fst (update_sub_col ?st ''Market Cap'')) = Histogram ph"
    by simp_all
  moreover have "draw_subplot (df demo_session) ''Market Cap'' [0, 2] = Inr (Histogram ph)"
    using ds by simp
  ultimately show ?thesis by simp
qed

section \<open>Colour maps, subplots and bar charts\<close>

lemma np_unique_props: "sorted (np_unique xs) \<and> distinct (np_unique xs) \<and> set (np_unique xs) = set xs"
  by (simp add: np_unique_def)

lemma create_cmap_object:
  assumes "getcol d col = Inr (ObjCol xs)"
  shows "create_cmap d col =
           (let l = np_unique (astype_str (ObjCol xs))
            in if length l = 2
               then Inr (FactorCmap col [Hex ''#000000'', Hex ''#FFFFFF''] l,
                         Some (zip l [Hex ''#000000'', Hex ''#FFFFFF'']))
               else if length l < 256 then Inl ValueError else Inl IndexError)"
  by (simp add: create_cmap_def assms Let_def factor_cmap_def)

text \<open>
  C8, at a feature with three categories. \<^verbatim>\<open>Turbo256[len(l)]\<close> is one entry of the
  256-colour tuple, a single colour string, not a palette of \<open>len(l)\<close> colours;
  \<^verbatim>\<open>factor_cmap\<close> rejects it, so neither \<open>create_cmap\<close> nor \<open>plot_pca\<close> returns a
  colour mapping for the three clusters of \<open>three_cluster_table\<close>.
\<close>

theorem create_cmap_three_categories:
  "getcol three_cluster_table ''Cluster'' = Inr (ObjCol [Some ''0'', Some ''1'', Some ''2''])
   \<and> create_cmap three_cluster_table ''Cluster'' = Inl ValueError
   \<and> plot_pca three_cluster_table three_cluster_table ''Cluster'' = Inl ValueError"
proof -
  have g: "getcol three_cluster_table ''Cluster'' = Inr (ObjCol [Some ''0'', Some ''1'', Some ''2''])"
    by (simp add: getcol_def three_cluster_table_def)
  have "length (np_unique (astype_str (ObjCol [Some ''0'', Some ''1'', Some ''2'']))) = 3"
    by (simp add: np_unique_def)
  then have c: "create_cmap three_cluster_table ''Cluster'' = Inl ValueError"
    by (simp add: create_cmap_object [OF g] Let_def)
  then show ?thesis using g by (simp add: plot_pca_def)
qed

text \<open>
  With exactly two categories there is one colour per category, in sorted order: black for the
  smaller and white for the larger category name.
\<close>

lemma create_cmap_two_categories:
  assumes "getcol d col = Inr (ObjCol xs)" and "np_unique (astype_str (ObjCol xs)) = [a, b]"
  shows "create_cmap d col =
           Inr (FactorCmap col [Hex ''#000000'', Hex ''#FFFFFF''] [a, b],
                Some [(a, Hex ''#000000''), (b, Hex ''#FFFFFF'')])"
    and "a < b"
proof -
  show "create_cmap d col =
           Inr (FactorCmap col [Hex ''#000000'', Hex ''#FFFFFF''] [a, b],
                Some [(a, Hex ''#000000''), (b, Hex ''#FFFFFF'')])"
    unfolding create_cmap_object [OF assms(1)] assms(2) by simp
  from np_unique_props [of "astype_str (ObjCol xs)"] assms(2)
  show "a < b" by auto
qed

text \<open>
  C9 (amended). \<open>draw_subplot\<close> returns a subplot only for a column whose dtype is numeric
  or object, and for a column of any other dtype it raises \<^verbatim>\<open>UnboundLocalError\<close>:
  no branch assigns the result. The other dtypes are the date columns; a boolean column is
  numeric for \<^verbatim>\<open>is_numeric_dtype\<close> and takes the histogram branch.
\<close>

theorem draw_subplot_unbound:
  assumes "getcol d ft = Inr c"
  shows "(\<not> is_numeric_dtype c \<and> \<not> is_object_dtype c \<longrightarrow>
            draw_subplot d ft sel = Inl UnboundLocalError)
       \<and> (\<not> isl (draw_subplot d ft sel) \<longrightarrow> is_numeric_dtype c \<or> is_object_dtype c)
       \<and> (is_numeric_dtype c \<or> is_object_dtype c) = (case c of DatetimeCol _ \<Rightarrow> False | _ \<Rightarrow> True)"
  using assms by (cases c) (simp_all add: draw_subplot_def)

theorem draw_subplot_unbound_witness:
  "getcol typed_table ''Founded'' = Inr (DatetimeCol [Some 0, Some 86400])
   \<and> \<not> is_numeric_dtype (DatetimeCol [Some 0, Some 86400])
   \<and> \<not> is_object_dtype (DatetimeCol [Some 0, Some 86400])
   \<and> draw_subplot typed_table ''Founded'' [] = Inl UnboundLocalError"
proof -
  have g: "getcol typed_table ''Founded'' = Inr (DatetimeCol [Some 0, Some 86400])"
    by (simp add: getcol_def typed_table_def)
  from draw_subplot_unbound [OF g, of "[]"] g show ?thesis by simp
qed

theorem draw_subplot_boolean_counterexample:
  "getcol typed_table ''Profitable'' = Inr (BoolCol [True, False])
   \<and> \<not> isl (draw_subplot typed_table ''Profitable'' [])
   \<and> draw_subplot typed_table ''Profitable'' [] \<noteq> Inl UnboundLocalError"
proof -
  have wf: "wf_df typed_table" by (simp add: wf_df_def typed_table_def nrows_def)
  have g: "getcol typed_table ''Profitable'' = Inr (BoolCol [True, False])"
    by (simp add: getcol_def typed_table_def)
  have h: "histogram_input (BoolCol [True, False]) = Inr [Some 1, Some 0]" by simp
  have t: "those [Some (1::real), Some 0] = Some [1, 0]" by simp
  have s: "those (map (norm_index (nrows typed_table)) []) = Some []" by simp
  from draw_hist_returns [OF wf g h t s]
  obtain ph where "draw_hist typed_table ''Profitable'' [] = Inr ph" by blast
  then have "draw_subplot typed_table ''Profitable'' [] = Inr (Histogram ph)"
    by (simp add: draw_subplot_def g)
  with g show ?thesis by simp
qed

text \<open>
  C2, at a selection of every row. The table of \<open>demo_session\<close> has the clusters
  \<^verbatim>\<open>'0'\<close>, \<^verbatim>\<open>'1'\<close>, \<^verbatim>\<open>'0'\<close>. With all three rows selected the bar chart
  counts 2 and 1 over all rows and 0 and 0 over the selection: the counts of the selection
  come from \<^verbatim>\<open>s.value_counts()\<close>, which counts whole rows and is indexed by the
  first column (\<^verbatim>\<open>Symbol\<close>), so no category of \<^verbatim>\<open>Cluster\<close> is ever found in it.
\<close>

theorem draw_bar_chart_counts_whole_rows:
  "draw_bar_chart (df demo_session) ''Cluster'' [0, 1, 2] =
     Inr \<lparr>bar_x = [StrV ''0'', StrV ''1'', StrV ''0'', StrV ''1''],
          bar_counts = [2, 1, 0, 0],
          bar_color = [Hex ''#000000'', Hex ''#FFFFFF'', Hex ''#000000'', Hex ''#FFFFFF''],
          bar_label = [''all'', ''all'', ''selected'', ''selected''],
          x_range = [StrV ''0'', StrV ''1''], bar_y_end = 11 / 5,
          bar_title = ''Distribution of Cluster''\<rparr>"
  by code_simp

section \<open>The label column after a change of the colour feature\<close>

text \<open>
  X1. After start-up the mirror is kept by \<open>update_pca_col\<close>: whenever the callback
  returns without an exception, \<open>pca_ft_selected\<close> is the new name and the
  \<^verbatim>\<open>label\<close> column of the data source is the column of the frame that
  \<open>pca_ft_selected\<close> now names.
\<close>

theorem update_pca_col_mirrors:
  assumes "update_pca_col st new = (st', None)"
  shows "pca_ft_selected st' = new
       \<and> getcol (p_pca_source st') ''label'' = getcol (df st') (pca_ft_selected st')"
  using assms
  by (auto simp: update_pca_col_def Let_def getcol_setcol_same split: sum.splits)

theorem update_pca_col_mirrors_witness:
  "update_pca_col demo_session ''Cluster''
     = (fst (update_pca_col demo_session ''Cluster''), None)
   \<and> pca_ft_selected (fst (update_pca_col demo_session ''Cluster'')) = ''Cluster''
   \<and> getcol (p_pca_source (fst (update_pca_col demo_session ''Cluster''))) ''label''
       = getcol (df (fst (update_pca_col demo_session ''Cluster''))) (pca_ft_selected (fst (update_pca_col demo_session ''Cluster'')))
   \<and> getcol (df (fst (update_pca_col demo_session ''Cluster''))) ''Cluster''
       = Inr (ObjCol [Some ''0'', Some ''1'', Some ''0''])"
proof -
  let ?d = "demo_table @ [(''label'', ObjCol [Some ''Market Cap'', Some ''Market Cap'', Some ''Market Cap''])]"
  have g: "getcol ?d ''Cluster'' = Inr (ObjCol [Some ''0'', Some ''1'', Some ''0''])"
    by (simp add: getcol_def demo_table_def)
  have u: "np_unique (astype_str (ObjCol [Some ''0'', Some ''1'', Some ''0''])) = [''0'', ''1'']"
    by (simp add: np_unique_def)
  have "plot_pca src ?d ''Cluster'' =
          Inr \<lparr>scatter_title = ''PCA with Color Map on Cluster'',
               fill_color = FactorCmap ''Cluster'' [Hex ''#000000'', Hex ''#FFFFFF''] [''0'', ''1''],
               legend_field = ''label'', color_bar = None, legend_left = True\<rparr>" for src
    by (simp add: plot_pca_def create_cmap_two_categories(1) [OF g u] g)
  then have s: "snd (update_pca_col demo_session ''Cluster'') = None"
    by (simp add: update_pca_col_def Let_def df_demo_session g)
  then have e: "update_pca_col demo_session ''Cluster'' = (fst (update_pca_col demo_session ''Cluster''), None)"
    by (simp add: prod_eq_iff)
  have "df (fst (update_pca_col demo_session ''Cluster'')) = ?d"
    by (simp add: update_pca_col_def Let_def df_demo_session split: sum.splits)
  with update_pca_col_mirrors [OF e] e g show ?thesis by simp
qed

end
